theory Spec2Isabelle
  imports Complex_Main "HOL-Library.Char_ord" "HOL-Library.List_Lexorder"
    "HOL-Library.Product_Lexorder"
begin

section \<open>Numbers and errors\<close>

text \<open>
  Python integers are unbounded and are modelled by \<open>int\<close>; the integer columns of the
  data frames hold counts of households and housing units and are modelled by \<open>int\<close> as
  well. A finite floating-point number is modelled by the real number it stands for:
  binary rounding is outside this model, the special values are inside it. A float column
  of a data frame holds \<open>pdfloat\<close> values: a finite number, one of the two infinities, or
  NaN. Strings are compared as Python compares them, character by character
  (\<open>Char_ord\<close>, \<open>List_Lexorder\<close>); tuples of keys lexicographically
  (\<open>Product_Lexorder\<close>).
\<close>

datatype error = ZeroDivisionError | ValueError

datatype pynum = PyInt int | PyFloat real

datatype pyval = PStr string | PNum pynum

datatype pdfloat = Num real | PosInf | NegInf | NaN

text \<open>Python's \<open>a / b\<close> on two integers: it raises when the divisor is zero.\<close>

definition py_truediv :: "int \<Rightarrow> int \<Rightarrow> error + real" where
  "py_truediv a b = (if b = 0 then Inl ZeroDivisionError else Inr (of_int a / of_int b))"

text \<open>Rounding to the nearest integer, a tie going to the even neighbour.\<close>

definition round_half_even :: "real \<Rightarrow> int" where
  "round_half_even x =
     (let f = \<lfloor>x\<rfloor>; d = x - of_int f
      in if d < 1 / 2 then f else if 1 / 2 < d then f + 1 else if even f then f else f + 1)"

text \<open>
  Python's \<open>round(x, ndigits)\<close> for \<open>ndigits \<ge> 0\<close>: a float is rounded to that many
  decimal places, an integer is returned as it is.
\<close>

definition py_round :: "pynum \<Rightarrow> nat \<Rightarrow> pynum" where
  "py_round v ndigits =
     (case v of
        PyInt i \<Rightarrow> PyInt i
      | PyFloat x \<Rightarrow> PyFloat (of_int (round_half_even (x * 10 ^ ndigits)) / 10 ^ ndigits))"

text \<open>
  Division of two integers in a data frame (numpy's true division): no exception, a zero
  divisor gives an infinity or NaN.
\<close>

definition np_truediv :: "int \<Rightarrow> int \<Rightarrow> pdfloat" where
  "np_truediv a b =
     (if b \<noteq> 0 then Num (of_int a / of_int b)
      else if 0 < a then PosInf else if a < 0 then NegInf else NaN)"

fun fneg :: "pdfloat \<Rightarrow> pdfloat" where
  "fneg (Num a) = Num (- a)"
| "fneg PosInf = NegInf"
| "fneg NegInf = PosInf"
| "fneg NaN = NaN"

fun fadd :: "pdfloat \<Rightarrow> pdfloat \<Rightarrow> pdfloat" where
  "fadd NaN y = NaN"
| "fadd x NaN = NaN"
| "fadd (Num a) (Num b) = Num (a + b)"
| "fadd PosInf NegInf = NaN"
| "fadd NegInf PosInf = NaN"
| "fadd PosInf y = PosInf"
| "fadd x PosInf = PosInf"
| "fadd NegInf y = NegInf"
| "fadd x NegInf = NegInf"

definition fsub :: "pdfloat \<Rightarrow> pdfloat \<Rightarrow> pdfloat" where
  "fsub x y = fadd x (fneg y)"

text \<open>The sign of a product with an infinite factor; zero times infinity is NaN.\<close>

definition inf_times :: "bool \<Rightarrow> real \<Rightarrow> pdfloat" where
  "inf_times positive b =
     (if b = 0 then NaN else if (0 < b) = positive then PosInf else NegInf)"

fun fmul :: "pdfloat \<Rightarrow> pdfloat \<Rightarrow> pdfloat" where
  "fmul NaN y = NaN"
| "fmul x NaN = NaN"
| "fmul (Num a) (Num b) = Num (a * b)"
| "fmul PosInf (Num b) = inf_times True b"
| "fmul NegInf (Num b) = inf_times False b"
| "fmul (Num a) PosInf = inf_times True a"
| "fmul (Num a) NegInf = inf_times False a"
| "fmul PosInf PosInf = PosInf"
| "fmul NegInf NegInf = PosInf"
| "fmul PosInf NegInf = NegInf"
| "fmul NegInf PosInf = NegInf"

text \<open>The comparisons \<open>x > y\<close> and \<open>x \<le> y\<close> of two floats: false when either is NaN.\<close>

fun fgt :: "pdfloat \<Rightarrow> pdfloat \<Rightarrow> bool" where
  "fgt NaN y = False"
| "fgt x NaN = False"
| "fgt (Num a) (Num b) = (b < a)"
| "fgt PosInf PosInf = False"
| "fgt PosInf y = True"
| "fgt x PosInf = False"
| "fgt NegInf y = False"
| "fgt x NegInf = True"

fun fle :: "pdfloat \<Rightarrow> pdfloat \<Rightarrow> bool" where
  "fle NaN y = False"
| "fle x NaN = False"
| "fle x y = (\<not> fgt x y)"

text \<open>
  \<open>Series.sum()\<close> and \<open>Series.median()\<close> of a float column. Both skip NaN entries;
  the median of an even number of entries is the mean of the two middle ones.
\<close>

definition is_nan :: "pdfloat \<Rightarrow> bool" where
  "is_nan x = (x = NaN)"

definition series_sum :: "pdfloat list \<Rightarrow> pdfloat" where
  "series_sum xs = fold (\<lambda>x acc. fadd acc x) (filter (\<lambda>x. \<not> is_nan x) xs) (Num 0)"

fun finsert :: "pdfloat \<Rightarrow> pdfloat list \<Rightarrow> pdfloat list" where
  "finsert x [] = [x]"
| "finsert x (y # ys) = (if fle x y then x # y # ys else y # finsert x ys)"

definition fsort :: "pdfloat list \<Rightarrow> pdfloat list" where
  "fsort xs = foldr finsert xs []"

definition median :: "pdfloat list \<Rightarrow> pdfloat" where
  "median xs =
     (let ys = fsort (filter (\<lambda>x. \<not> is_nan x) xs); n = length ys
      in if n = 0 then NaN
         else if odd n then ys ! (n div 2)
         else fmul (fadd (ys ! (n div 2 - 1)) (ys ! (n div 2))) (Num (1 / 2)))"

text \<open>\<open>dict.get(key, default)\<close> on a dictionary literal.\<close>

definition dict_get :: "(string \<times> int) list \<Rightarrow> string \<Rightarrow> int \<Rightarrow> int" where
  "dict_get d k dflt = (case map_of d k of Some v \<Rightarrow> v | None \<Rightarrow> dflt)"

section \<open>generate\_data\_simple.py: the policy coverage records\<close>

definition cities :: "string list" where
  "cities = [''New York, NY'', ''Los Angeles, CA'', ''Chicago, IL'',
             ''Detroit, MI'', ''Cleveland, OH'', ''Philadelphia, PA'',
             ''San Francisco, CA'', ''Boston, MA'']"

definition severe_cost_burden_renters :: "(string \<times> int) list" where
  "severe_cost_burden_renters =
     [(''New York, NY'', 850), (''Los Angeles, CA'', 720), (''Chicago, IL'', 380),
      (''Detroit, MI'', 120), (''Cleveland, OH'', 85), (''Philadelphia, PA'', 220),
      (''San Francisco, CA'', 180), (''Boston, MA'', 150)]"

text \<open>
  Line 44: \<open>(total_subsidized / cost_burden_renters * 100) if cost_burden_renters > 0 else 0\<close>.
  The first branch is a float, the second the integer \<open>0\<close>.
\<close>

definition coverage_ratio :: "int \<Rightarrow> int \<Rightarrow> error + pynum" where
  "coverage_ratio total_subsidized cost_burden_renters =
     (if 0 < cost_burden_renters
      then (case py_truediv total_subsidized cost_burden_renters of
              Inl e \<Rightarrow> Inl e
            | Inr q \<Rightarrow> Inr (PyFloat (q * 100)))
      else Inr (PyInt 0))"

text \<open>
  The body of the loop of lines 36 to 56, for one city. The dictionary of burdened renters
  is an argument (the script passes \<open>severe_cost_burden_renters\<close>), and so are the four
  numbers \<open>random.randint\<close> returns. The result is the dictionary appended to
  \<open>policy_data\<close>, its keys in the order of the literal, or the exception raised.
\<close>

definition policy_row ::
  "(string \<times> int) list \<Rightarrow> string \<Rightarrow> int \<Rightarrow> int \<Rightarrow> int \<Rightarrow> int \<Rightarrow> error + (string \<times> pyval) list" where
  "policy_row burden city r1 r2 r3 r4 =
     (let public_housing = r1 * 1000;
          vouchers = r2 * 1000;
          lihtc = r3 * 1000;
          section8 = r4 * 1000;
          total_subsidized = public_housing + vouchers + lihtc + section8;
          cost_burden_renters = dict_get burden city 100 * 1000
      in case coverage_ratio total_subsidized cost_burden_renters of
           Inl e \<Rightarrow> Inl e
         | Inr ratio \<Rightarrow>
             Inr [(''city'', PStr city),
                  (''severe_cost_burden_renters'', PNum (PyInt cost_burden_renters)),
                  (''public_housing_units'', PNum (PyInt public_housing)),
                  (''voucher_households'', PNum (PyInt vouchers)),
                  (''lihtc_units'', PNum (PyInt lihtc)),
                  (''section8_units'', PNum (PyInt section8)),
                  (''total_subsidized'', PNum (PyInt total_subsidized)),
                  (''coverage_ratio'', PNum (py_round ratio 2)),
                  (''subsidized_per_100_burdened'', PNum (py_round ratio 2))])"

text \<open>
  The loop over the cities. \<open>rand k\<close> is the \<open>k\<close>-th number \<open>random.randint\<close> returns;
  every city draws four.
\<close>

fun policy_data ::
  "(string \<times> int) list \<Rightarrow> string list \<Rightarrow> (nat \<Rightarrow> int) \<Rightarrow> nat \<Rightarrow> error + (string \<times> pyval) list list" where
  "policy_data burden [] rand k = Inr []"
| "policy_data burden (city # rest) rand k =
     (case policy_row burden city (rand k) (rand (k + 1)) (rand (k + 2)) (rand (k + 3)) of
        Inl e \<Rightarrow> Inl e
      | Inr row \<Rightarrow>
          (case policy_data burden rest rand (k + 4) of
             Inl e \<Rightarrow> Inl e
           | Inr rows \<Rightarrow> Inr (row # rows)))"

definition policy_coverage :: "(nat \<Rightarrow> int) \<Rightarrow> error + (string \<times> pyval) list list" where
  "policy_coverage rand = policy_data severe_cost_burden_renters cities rand 0"

section \<open>partner\_template.py: burden and coverage by city type\<close>

text \<open>
  A row of \<open>merged\<close> (lines 101 to 103), with the columns the rollup reads. The left
  join leaves \<open>city_type\<close> empty (NaN, here \<open>None\<close>) for a city that has no row in
  the policy mix.
\<close>

record merged_row =
  m_city_type :: "string option"
  m_severe_cost_burden_renters :: int
  m_total_subsidized :: int

record agg_row =
  income_group :: string
  total_severe :: int
  total_subsidized :: int

record share_row = agg_row +
  severely_burdened_pct :: pdfloat
  subsidized_per_100_burdened :: pdfloat

record by_type_row = share_row +
  label_dy :: pdfloat
  label_dx :: pdfloat

text \<open>
  Lines 105 to 111 and the renaming of line 124:
  \<open>merged.groupby("city_type", as_index=False).agg(...)\<close>. The call keeps pandas'
  defaults \<open>sort=True\<close> and \<open>dropna=True\<close>: one row per distinct key, the keys in
  ascending order, rows without a key left out.
\<close>

definition group_keys :: "merged_row list \<Rightarrow> string list" where
  "group_keys merged = sort (remdups (List.map_filter m_city_type merged))"

definition groupby_city_type :: "merged_row list \<Rightarrow> agg_row list" where
  "groupby_city_type merged =
     map (\<lambda>k. \<lparr>income_group = k,
                total_severe =
                  sum_list (map m_severe_cost_burden_renters
                    (filter (\<lambda>r. m_city_type r = Some k) merged)),
                total_subsidized =
                  sum_list (map m_total_subsidized
                    (filter (\<lambda>r. m_city_type r = Some k) merged))\<rparr>)
       (group_keys merged)"

text \<open>Lines 114 to 121: the share of all severely burdened renters and the coverage.\<close>

definition add_shares :: "agg_row list \<Rightarrow> share_row list" where
  "add_shares rows =
     (let total = sum_list (map total_severe rows)
      in map (\<lambda>r. \<lparr>income_group = income_group r,
                     total_severe = total_severe r,
                     total_subsidized = total_subsidized r,
                     severely_burdened_pct =
                       fmul (np_truediv (total_severe r) total) (Num 100),
                     subsidized_per_100_burdened =
                       fmul (np_truediv (total_subsidized r) (total_severe r)) (Num 100)\<rparr>)
           rows)"

text \<open>The two lambdas of lines 136 to 143.\<close>

definition label_dy_of :: "pdfloat \<Rightarrow> int \<Rightarrow> int \<Rightarrow> int \<Rightarrow> pdfloat \<Rightarrow> pdfloat" where
  "label_dy_of median_y min_size max_size size_i y =
     (if fgt y median_y
      then fsub (Num (- 25)) (fmul (np_truediv (size_i - min_size) (max_size - min_size)) (Num 10))
      else fadd (Num 25) (fmul (np_truediv (size_i - min_size) (max_size - min_size)) (Num 10)))"

definition label_dx_of :: "int \<Rightarrow> int \<Rightarrow> int \<Rightarrow> pdfloat" where
  "label_dx_of min_size max_size size_i =
     fadd (Num (3 / 2)) (fmul (np_truediv (size_i - min_size) (max_size - min_size)) (Num (1 / 2)))"

text \<open>
  Lines 128 to 143. On a table without rows \<open>apply\<close> calls neither lambda; otherwise the
  median of the coverage column and the largest and smallest \<open>total_severe\<close> are taken
  first.
\<close>

definition add_labels :: "share_row list \<Rightarrow> by_type_row list" where
  "add_labels rows =
     (case rows of
        [] \<Rightarrow> []
      | r0 # rest \<Rightarrow>
          (let median_y = median (map subsidized_per_100_burdened rows);
               max_size = fold max (map total_severe rest) (total_severe r0);
               min_size = fold min (map total_severe rest) (total_severe r0)
           in map (\<lambda>r. \<lparr>income_group = income_group r,
                          total_severe = total_severe r,
                          total_subsidized = total_subsidized r,
                          severely_burdened_pct = severely_burdened_pct r,
                          subsidized_per_100_burdened = subsidized_per_100_burdened r,
                          label_dy =
                            label_dy_of median_y min_size max_size (total_severe r)
                              (subsidized_per_100_burdened r),
                          label_dx = label_dx_of min_size max_size (total_severe r)\<rparr>)
                rows))"

definition by_type :: "merged_row list \<Rightarrow> by_type_row list" where
  "by_type merged = add_labels (add_shares (groupby_city_type merged))"

text \<open>
  Two notions of the specification that the code does not compute, used to state its
  requirements: the order in which the keys are first seen in the input, and the test
  that a float lies within a tolerance of a target.
\<close>

fun first_seen :: "'a list \<Rightarrow> 'a list" where
  "first_seen [] = []"
| "first_seen (x # xs) = x # filter (\<lambda>y. y \<noteq> x) (first_seen xs)"


section \<open>create\_visualizations\_altair.py and app.py: cumulative expiring units\<close>

record summary_row =
  city :: string
  year :: int
  expiring_units :: int







section \<open>partner\_template.py: the merged annual price series\<close>

text \<open>
  A timestamp is a year, a month and a day. The \<open>date\<close> column of a source holds what
  \<open>pd.to_datetime\<close> makes of the row: a timestamp, or nothing where the text is no date.
  An HPI row is a row of \<open>hpi_master.csv\<close> with the columns lines 296 to 310 read; its
  date is the outcome of lines 301 to 304, which build the text from \<open>yr\<close> and
  \<open>period\<close> and parse it with the default \<open>errors="raise"\<close>, so that a row without a
  date is one on which these lines raise. A ZHVI row is a row of \<open>zhvi_long\<close> after
  line 327, which parses the column names of the national rows with
  \<open>errors="coerce"\<close>: a row without a date holds NaT. The columns \<open>year\<close> and
  \<open>zhvi\<close> of the merged table are the fields \<open>trend_year\<close> and \<open>trend_zhvi\<close>.
\<close>

type_synonym timestamp = "int \<times> int \<times> int"

definition dt_year :: "timestamp \<Rightarrow> int" where
  "dt_year d = fst d"

record hpi_row =
  place_name :: string
  frequency :: string
  hpi_date :: "timestamp option"
  index_sa :: pdfloat

record zhvi_long_row =
  zhvi_date :: "timestamp option"
  zhvi :: pdfloat

record covid_row =
  trend_year :: int
  hpi_index :: pdfloat
  trend_zhvi :: pdfloat

text \<open>The mean of a float column: NaN entries are skipped, no entry left gives NaN.\<close>

definition series_mean :: "pdfloat list \<Rightarrow> pdfloat" where
  "series_mean xs =
     (let ys = filter (\<lambda>x. \<not> is_nan x) xs
      in if ys = [] then NaN else fmul (series_sum ys) (Num (1 / of_nat (length ys))))"

text \<open>\<open>groupby("year", as_index=False)[column].mean()\<close> on pairs of a year and a value.\<close>

definition groupby_year_mean :: "(int \<times> pdfloat) list \<Rightarrow> (int \<times> pdfloat) list" where
  "groupby_year_mean obs =
     map (\<lambda>y. (y, series_mean (map snd (filter (\<lambda>ob. fst ob = y) obs))))
       (sort (remdups (map fst obs)))"

text \<open>Lines 296 to 305: the monthly national rows and their years.\<close>

definition hpi_us :: "hpi_row list \<Rightarrow> error + (int \<times> pdfloat) list" where
  "hpi_us hpi =
     (let rows = filter (\<lambda>r. place_name r = ''United States'' \<and> frequency r = ''monthly'') hpi
      in case those (map (\<lambda>r. map_option (\<lambda>d. (dt_year d, index_sa r)) (hpi_date r)) rows) of
           None \<Rightarrow> Inl ValueError
         | Some obs \<Rightarrow> Inr obs)"

text \<open>Lines 307 to 312.\<close>

definition hpi_year :: "(int \<times> pdfloat) list \<Rightarrow> (int \<times> pdfloat) list" where
  "hpi_year obs = filter (\<lambda>ob. 2010 \<le> fst ob) (groupby_year_mean obs)"

text \<open>Lines 328 to 332: rows without a date are dropped before the years are taken.\<close>

definition zhvi_year :: "zhvi_long_row list \<Rightarrow> (int \<times> pdfloat) list" where
  "zhvi_year zhvi_long =
     (let kept = List.map_filter (\<lambda>r. map_option (\<lambda>d. (dt_year d, zhvi r)) (zhvi_date r)) zhvi_long
      in filter (\<lambda>ob. 2010 \<le> fst ob) (groupby_year_mean kept))"

text \<open>Line 334: \<open>pd.merge(hpi_year, zhvi_year, on="year", how="inner")\<close>.\<close>

definition merge_inner :: "(int \<times> pdfloat) list \<Rightarrow> (int \<times> pdfloat) list \<Rightarrow> covid_row list" where
  "merge_inner left right =
     concat (map (\<lambda>l. map (\<lambda>r. \<lparr>trend_year = fst l, hpi_index = snd l, trend_zhvi = snd r\<rparr>)
                        (filter (\<lambda>r. fst r = fst l) right))
               left)"

definition covid_trends :: "hpi_row list \<Rightarrow> zhvi_long_row list \<Rightarrow> error + covid_row list" where
  "covid_trends hpi zhvi_long =
     (case hpi_us hpi of
        Inl e \<Rightarrow> Inl e
      | Inr obs \<Rightarrow> Inr (merge_inner (hpi_year obs) (zhvi_year zhvi_long)))"

section \<open>Properties of the policy coverage records\<close>



lemma coverage_ratio_total:
  "\<exists>v. coverage_ratio s d = Inr v"
  by (simp add: coverage_ratio_def py_truediv_def)

lemma policy_row_Inr:
  "\<exists>row. policy_row burden town r1 r2 r3 r4 = Inr row"
  by (simp add: policy_row_def coverage_ratio_def py_truediv_def Let_def)

lemma policy_data_Inr:
  "\<exists>rows. policy_data burden cs rand k = Inr rows \<and> length rows = length cs"
proof (induction cs arbitrary: k)
  case Nil
  show ?case by simp
next
  case (Cons c cs)
  obtain row where "policy_row burden c (rand k) (rand (k + 1)) (rand (k + 2)) (rand (k + 3)) = Inr row"
    using policy_row_Inr by blast
  moreover obtain rows where "policy_data burden cs rand (k + 4) = Inr rows" "length rows = length cs"
    using Cons.IH by blast
  ultimately show ?case by simp
qed

lemma policy_data_rows:
  "policy_data burden cs rand k = Inr rows \<Longrightarrow> row \<in> set rows \<Longrightarrow>
     \<exists>c r1 r2 r3 r4. policy_row burden c r1 r2 r3 r4 = Inr row"
proof (induction cs arbitrary: k rows)
  case Nil
  then show ?case by simp
next
  case (Cons c cs)
  from Cons.prems obtain r rs where
    r: "policy_row burden c (rand k) (rand (k + 1)) (rand (k + 2)) (rand (k + 3)) = Inr r"
    and rs: "policy_data burden cs rand (k + 4) = Inr rs" and rows: "rows = r # rs"
    by (auto split: sum.splits)
  show ?case
  proof (cases "row = r")
    case True
    with r show ?thesis by blast
  next
    case False
    with Cons.prems(2) rows have "row \<in> set rs" by simp
    with rs show ?thesis by (rule Cons.IH)
  qed
qed


lemma nowhere_row:
  "policy_row [(''Nowhere'', 0)] ''Nowhere'' 1 2 3 4 =
     Inr [(''city'', PStr ''Nowhere''),
          (''severe_cost_burden_renters'', PNum (PyInt 0)),
          (''public_housing_units'', PNum (PyInt 1000)),
          (''voucher_households'', PNum (PyInt 2000)),
          (''lihtc_units'', PNum (PyInt 3000)),
          (''section8_units'', PNum (PyInt 4000)),
          (''total_subsidized'', PNum (PyInt 10000)),
          (''coverage_ratio'', PNum (PyInt 0)),
          (''subsidized_per_100_burdened'', PNum (PyInt 0))]"
  by (simp add: policy_row_def coverage_ratio_def Let_def dict_get_def py_round_def)

lemma boston_rows:
  "policy_data severe_cost_burden_renters [''Boston, MA''] (\<lambda>k. 30) 0 =
     Inr [[(''city'', PStr ''Boston, MA''),
          (''severe_cost_burden_renters'', PNum (PyInt 150000)),
          (''public_housing_units'', PNum (PyInt 30000)),
          (''voucher_households'', PNum (PyInt 30000)),
          (''lihtc_units'', PNum (PyInt 30000)),
          (''section8_units'', PNum (PyInt 30000)),
          (''total_subsidized'', PNum (PyInt 120000)),
          (''coverage_ratio'', PNum (PyFloat 80)),
          (''subsidized_per_100_burdened'', PNum (PyFloat 80))]]"
  by (simp add: policy_row_def coverage_ratio_def py_truediv_def Let_def
      severe_cost_burden_renters_def dict_get_def py_round_def round_half_even_def)

lemma policy_row_fields:
  assumes "policy_row burden town r1 r2 r3 r4 = Inr row"
  shows "map_of row ''coverage_ratio'' = map_of row ''subsidized_per_100_burdened''
     \<and> (\<exists>v. map_of row ''coverage_ratio'' = Some (PNum v))
     \<and> (\<exists>a b c d. map_of row ''public_housing_units'' = Some (PNum (PyInt a))
            \<and> map_of row ''voucher_households'' = Some (PNum (PyInt b))
            \<and> map_of row ''lihtc_units'' = Some (PNum (PyInt c))
            \<and> map_of row ''section8_units'' = Some (PNum (PyInt d))
            \<and> map_of row ''total_subsidized'' = Some (PNum (PyInt (a + b + c + d))))"
  using assms
  by (auto simp: policy_row_def Let_def split: sum.splits)




text \<open>
  Claim C6, as the code has it. Building a record never raises, whatever the dictionary
  and the draws, and neither does the loop over the cities. The record has the nine keys
  of the literal and no other. When the demand is zero (or negative) the ratio is the
  integer 0; when the demand is positive and the supply is zero the ratio is the float 0.
\<close>

theorem zero_demand_ratio_is_zero_without_fault:
  "\<exists>row d s. policy_row burden town r1 r2 r3 r4 = Inr row
     \<and> map fst row = [''city'', ''severe_cost_burden_renters'', ''public_housing_units'',
          ''voucher_households'', ''lihtc_units'', ''section8_units'', ''total_subsidized'',
          ''coverage_ratio'', ''subsidized_per_100_burdened'']
     \<and> map_of row ''severe_cost_burden_renters'' = Some (PNum (PyInt d))
     \<and> map_of row ''total_subsidized'' = Some (PNum (PyInt s))
     \<and> (d \<le> 0 \<longrightarrow> map_of row ''coverage_ratio'' = Some (PNum (PyInt 0)))
     \<and> (0 < d \<and> s = 0 \<longrightarrow> map_of row ''coverage_ratio'' = Some (PNum (PyFloat 0)))
     \<and> (\<exists>rows. policy_data burden cs rand k = Inr rows \<and> length rows = length cs)"
proof -
  define d where "d = dict_get burden town 100 * 1000"
  define s where "s = r1 * 1000 + r2 * 1000 + r3 * 1000 + r4 * 1000"
  obtain ratio where ratio: "coverage_ratio s d = Inr ratio"
    using coverage_ratio_total by blast
  have zero: "d \<le> 0 \<longrightarrow> ratio = PyInt 0"
    using ratio by (auto simp: coverage_ratio_def)
  have none: "0 < d \<and> s = 0 \<longrightarrow> py_round ratio 2 = PyFloat 0"
    using ratio
    by (auto simp: coverage_ratio_def py_truediv_def py_round_def round_half_even_def)
  define row where "row =
     [(''city'', PStr town),
      (''severe_cost_burden_renters'', PNum (PyInt d)),
      (''public_housing_units'', PNum (PyInt (r1 * 1000))),
      (''voucher_households'', PNum (PyInt (r2 * 1000))),
      (''lihtc_units'', PNum (PyInt (r3 * 1000))),
      (''section8_units'', PNum (PyInt (r4 * 1000))),
      (''total_subsidized'', PNum (PyInt s)),
      (''coverage_ratio'', PNum (py_round ratio 2)),
      (''subsidized_per_100_burdened'', PNum (py_round ratio 2))]"
  have 1: "policy_row burden town r1 r2 r3 r4 = Inr row"
    using ratio by (simp add: policy_row_def Let_def d_def s_def row_def)
  have 2: "map fst row = [''city'', ''severe_cost_burden_renters'', ''public_housing_units'',
          ''voucher_households'', ''lihtc_units'', ''section8_units'', ''total_subsidized'',
          ''coverage_ratio'', ''subsidized_per_100_burdened'']"
    by (simp add: row_def)
  have 3: "map_of row ''severe_cost_burden_renters'' = Some (PNum (PyInt d))"
    and 4: "map_of row ''total_subsidized'' = Some (PNum (PyInt s))"
    and 5: "map_of row ''coverage_ratio'' = Some (PNum (py_round ratio 2))"
    by (simp_all add: row_def)
  have 6: "d \<le> 0 \<longrightarrow> map_of row ''coverage_ratio'' = Some (PNum (PyInt 0))"
    using zero 5 by (simp add: py_round_def)
  have 7: "0 < d \<and> s = 0 \<longrightarrow> map_of row ''coverage_ratio'' = Some (PNum (PyFloat 0))"
    using none 5 by simp
  note 8 = policy_data_Inr [of burden cs rand k]
  show ?thesis
    by (rule exI [of _ row], rule exI [of _ d], rule exI [of _ s])
      (intro conjI 1 2 3 4 6 7 8)
qed

theorem zero_demand_ratio_is_zero_without_fault_witness:
  "\<exists>row. policy_row [(''Nowhere'', 0)] ''Nowhere'' 1 2 3 4 = Inr row
     \<and> map_of row ''severe_cost_burden_renters'' = Some (PNum (PyInt 0))
     \<and> (0::int) \<le> 0
     \<and> map_of row ''coverage_ratio'' = Some (PNum (PyInt 0))"
proof -
  obtain row d s where row: "policy_row [(''Nowhere'', 0)] ''Nowhere'' 1 2 3 4 = Inr row"
    and d: "map_of row ''severe_cost_burden_renters'' = Some (PNum (PyInt d))"
    and imp: "d \<le> 0 \<longrightarrow> map_of row ''coverage_ratio'' = Some (PNum (PyInt 0))"
    using zero_demand_ratio_is_zero_without_fault [of "[(''Nowhere'', 0)]" "''Nowhere''" 1 2 3 4 "[]" "\<lambda>_. 0" 0]
    by blast
  from row d have "d = 0" unfolding nowhere_row by auto
  with row d imp show ?thesis by auto
qed

text \<open>
  Claim C6 as stated also asks for an undefined-denominator flag on a record whose demand
  is zero. The record built for such a city is shown whole: it holds the nine entries of
  every other record, none of them a flag.
\<close>

theorem no_undefined_denominator_flag_counterexample:
  "policy_row [(''Nowhere'', 0)] ''Nowhere'' 1 2 3 4 =
     Inr [(''city'', PStr ''Nowhere''),
          (''severe_cost_burden_renters'', PNum (PyInt 0)),
          (''public_housing_units'', PNum (PyInt 1000)),
          (''voucher_households'', PNum (PyInt 2000)),
          (''lihtc_units'', PNum (PyInt 3000)),
          (''section8_units'', PNum (PyInt 4000)),
          (''total_subsidized'', PNum (PyInt 10000)),
          (''coverage_ratio'', PNum (PyInt 0)),
          (''subsidized_per_100_burdened'', PNum (PyInt 0))]"
  by (simp add: policy_row_def coverage_ratio_def Let_def dict_get_def py_round_def)

text \<open>
  Claim C10. In every record the loop produces, \<open>coverage_ratio\<close> and
  \<open>subsidized_per_100_burdened\<close> hold the same number, and \<open>total_subsidized\<close> is the
  sum of the four counts of public housing, vouchers, LIHTC and Section 8 units.
\<close>

theorem coverage_fields_agree:
  assumes "policy_data burden cs rand k = Inr rows"
  shows "\<forall>row \<in> set rows.
       map_of row ''coverage_ratio'' = map_of row ''subsidized_per_100_burdened''
     \<and> (\<exists>v. map_of row ''coverage_ratio'' = Some (PNum v))
     \<and> (\<exists>a b c d. map_of row ''public_housing_units'' = Some (PNum (PyInt a))
            \<and> map_of row ''voucher_households'' = Some (PNum (PyInt b))
            \<and> map_of row ''lihtc_units'' = Some (PNum (PyInt c))
            \<and> map_of row ''section8_units'' = Some (PNum (PyInt d))
            \<and> map_of row ''total_subsidized'' = Some (PNum (PyInt (a + b + c + d))))"
proof
  fix row assume "row \<in> set rows"
  with assms obtain c r1 r2 r3 r4 where "policy_row burden c r1 r2 r3 r4 = Inr row"
    using policy_data_rows by blast
  then show "map_of row ''coverage_ratio'' = map_of row ''subsidized_per_100_burdened''
     \<and> (\<exists>v. map_of row ''coverage_ratio'' = Some (PNum v))
     \<and> (\<exists>a b c d. map_of row ''public_housing_units'' = Some (PNum (PyInt a))
            \<and> map_of row ''voucher_households'' = Some (PNum (PyInt b))
            \<and> map_of row ''lihtc_units'' = Some (PNum (PyInt c))
            \<and> map_of row ''section8_units'' = Some (PNum (PyInt d))
            \<and> map_of row ''total_subsidized'' = Some (PNum (PyInt (a + b + c + d))))"
    by (rule policy_row_fields)
qed

theorem coverage_fields_agree_witness:
  "\<exists>row. policy_data severe_cost_burden_renters [''Boston, MA''] (\<lambda>k. 30) 0 = Inr [row]
     \<and> map_of row ''coverage_ratio'' = Some (PNum (PyFloat 80))
     \<and> map_of row ''subsidized_per_100_burdened'' = Some (PNum (PyFloat 80))
     \<and> map_of row ''total_subsidized'' = Some (PNum (PyInt (30000 + 30000 + 30000 + 30000)))"
proof -
  obtain row where rows: "policy_data severe_cost_burden_renters [''Boston, MA''] (\<lambda>k. 30) 0 = Inr [row]"
    using boston_rows by blast
  have c: "map_of row ''coverage_ratio'' = Some (PNum (PyFloat 80))"
    and t: "map_of row ''total_subsidized'' = Some (PNum (PyInt 120000))"
    using rows unfolding boston_rows by auto
  from coverage_fields_agree [OF rows]
  have "map_of row ''coverage_ratio'' = map_of row ''subsidized_per_100_burdened''"
    by simp
  with rows c t show ?thesis by simp
qed

section \<open>Properties of the rollup by city type\<close>



lemma add_labels_map:
  "map income_group (add_labels rows) = map income_group rows"
  "map total_severe (add_labels rows) = map total_severe rows"
  "map severely_burdened_pct (add_labels rows) = map severely_burdened_pct rows"
  "map subsidized_per_100_burdened (add_labels rows) = map subsidized_per_100_burdened rows"
  by (simp_all add: add_labels_def Let_def comp_def split: list.splits)

lemma add_shares_map:
  "map income_group (add_shares rows) = map income_group rows"
  "map total_severe (add_shares rows) = map total_severe rows"
  by (simp_all add: add_shares_def Let_def comp_def)

lemma by_type_keys:
  "map income_group (by_type merged) = group_keys merged"
  by (simp add: by_type_def add_labels_map add_shares_map groupby_city_type_def comp_def)

lemma set_map_filter_Some:
  "set (List.map_filter f xs) = {k. \<exists>x \<in> set xs. f x = Some k}"
  by (induction xs) (auto simp: List.map_filter_simps split: option.splits)



text \<open>
  Claim C7, as the code has it. The rollup lists the city types in strictly ascending
  order of the key, every type that occurs in the input once: the order depends on the
  keys alone, not on where a key is first seen, nor on a hash.
\<close>

theorem groups_in_ascending_key_order:
  "sorted_wrt (<) (map income_group (by_type merged))
   \<and> set (map income_group (by_type merged)) = {k. \<exists>r \<in> set merged. m_city_type r = Some k}"
  by (simp only: by_type_keys group_keys_def strict_sorted_iff sorted_sort distinct_sort
      distinct_remdups set_sort set_remdups set_map_filter_Some simp_thms)

theorem groups_in_ascending_key_order_witness:
  "map income_group (by_type
     [\<lparr>m_city_type = Some ''Strong Market'', m_severe_cost_burden_renters = 850000, m_total_subsidized = 110000\<rparr>,
      \<lparr>m_city_type = Some ''Mixed'', m_severe_cost_burden_renters = 720000, m_total_subsidized = 200000\<rparr>,
      \<lparr>m_city_type = Some ''Legacy City'', m_severe_cost_burden_renters = 120000, m_total_subsidized = 90000\<rparr>,
      \<lparr>m_city_type = Some ''Strong Market'', m_severe_cost_burden_renters = 150000, m_total_subsidized = 120000\<rparr>])
   = [''Legacy City'', ''Mixed'', ''Strong Market'']
   \<and> sorted_wrt (<) [''Legacy City'', ''Mixed'', ''Strong Market'']"
proof -
  let ?merged = "[\<lparr>m_city_type = Some ''Strong Market'', m_severe_cost_burden_renters = 850000, m_total_subsidized = 110000\<rparr>,
      \<lparr>m_city_type = Some ''Mixed'', m_severe_cost_burden_renters = 720000, m_total_subsidized = 200000\<rparr>,
      \<lparr>m_city_type = Some ''Legacy City'', m_severe_cost_burden_renters = 120000, m_total_subsidized = 90000\<rparr>,
      \<lparr>m_city_type = Some ''Strong Market'', m_severe_cost_burden_renters = 150000, m_total_subsidized = 120000\<rparr>]"
  have keys: "map income_group (by_type ?merged) = [''Legacy City'', ''Mixed'', ''Strong Market'']"
    by (simp add: by_type_keys group_keys_def List.map_filter_def)
  from groups_in_ascending_key_order [of ?merged]
  have "sorted_wrt (<) (map income_group (by_type ?merged))" by (rule conjunct1)
  then have "sorted_wrt (<) [''Legacy City'', ''Mixed'', ''Strong Market'']"
    by (simp only: keys)
  with keys show ?thesis by (rule conjI)
qed

text \<open>
  Claim C7 as stated asks for the order in which the keys are first seen. With a strong
  market city before a legacy city in the input, the rollup lists the legacy cities first.
\<close>

theorem first_seen_order_counterexample:
  "map income_group (by_type
     [\<lparr>m_city_type = Some ''Strong Market'', m_severe_cost_burden_renters = 850000, m_total_subsidized = 110000\<rparr>,
      \<lparr>m_city_type = Some ''Legacy City'', m_severe_cost_burden_renters = 120000, m_total_subsidized = 90000\<rparr>])
   = [''Legacy City'', ''Strong Market'']
   \<and> first_seen (List.map_filter m_city_type
     [\<lparr>m_city_type = Some ''Strong Market'', m_severe_cost_burden_renters = 850000, m_total_subsidized = 110000\<rparr>,
      \<lparr>m_city_type = Some ''Legacy City'', m_severe_cost_burden_renters = 120000, m_total_subsidized = 90000\<rparr>])
   = [''Strong Market'', ''Legacy City'']
   \<and> map income_group (by_type
     [\<lparr>m_city_type = Some ''Strong Market'', m_severe_cost_burden_renters = 850000, m_total_subsidized = 110000\<rparr>,
      \<lparr>m_city_type = Some ''Legacy City'', m_severe_cost_burden_renters = 120000, m_total_subsidized = 90000\<rparr>])
   \<noteq> first_seen (List.map_filter m_city_type
     [\<lparr>m_city_type = Some ''Strong Market'', m_severe_cost_burden_renters = 850000, m_total_subsidized = 110000\<rparr>,
      \<lparr>m_city_type = Some ''Legacy City'', m_severe_cost_burden_renters = 120000, m_total_subsidized = 90000\<rparr>])"
  by (simp add: by_type_keys group_keys_def List.map_filter_def)








section \<open>Properties of the label offsets\<close>

lemma add_labels_label_dy:
  assumes "rows \<noteq> []"
  shows "map label_dy (add_labels rows) =
     map (\<lambda>r. label_dy_of (median (map subsidized_per_100_burdened rows))
                 (Min (set (map total_severe rows))) (Max (set (map total_severe rows)))
                 (total_severe r) (subsidized_per_100_burdened r)) rows"
proof -
  from assms obtain r0 rest where rows: "rows = r0 # rest" by (cases rows) auto
  have mx: "fold max (map total_severe rest) (total_severe r0) = Max (set (map total_severe rows))"
    and mn: "fold min (map total_severe rest) (total_severe r0) = Min (set (map total_severe rows))"
    unfolding rows by (simp_all only: list.map Max.set_eq_fold Min.set_eq_fold)
  show ?thesis
    unfolding add_labels_def
    by (simp add: rows Let_def comp_def mx [unfolded rows] mn [unfolded rows])
qed

lemma label_dy_of_Num:
  assumes "lo \<noteq> hi"
  shows "label_dy_of m lo hi sz y =
     Num (if fgt y m then - (25 + of_int (sz - lo) / of_int (hi - lo) * 10)
          else 25 + of_int (sz - lo) / of_int (hi - lo) * 10)"
  using assms by (simp add: label_dy_of_def np_truediv_def fsub_def)

lemma dy_sign:
  "(0::real) \<le> n \<Longrightarrow> 0 \<le> 25 + n * 10 \<and> - (25 + n * 10) < 0"
  by simp

lemma median_10_50_90: "median [Num 10, Num 50, Num 90] = Num 50"
  by (simp add: median_def fsort_def is_nan_def)

text \<open>
  Claim C8, as the code has it. When the sizes are not all equal, with \<open>lo\<close> the smallest
  and \<open>hi\<close> the largest, every row gets the offset of magnitude
  \<open>25 + (size - lo) / (hi - lo) * 10\<close>, negative when its coverage is strictly above the
  median coverage and positive otherwise; the normalised size lies between 0 and 1. For
  the coverages 10, 50 and 90 the first two offsets are not negative and the third is
  negative.
\<close>

theorem label_offsets_follow_size_and_median:
  fixes rows :: "share_row list"
  assumes ne: "rows \<noteq> []"
    and lo: "lo = Min (set (map total_severe rows))"
    and hi: "hi = Max (set (map total_severe rows))"
    and neq: "lo \<noteq> hi"
  shows "map label_dy (add_labels rows) =
           map (\<lambda>r. Num (if fgt (subsidized_per_100_burdened r) (median (map subsidized_per_100_burdened rows))
                          then - (25 + of_int (total_severe r - lo) / of_int (hi - lo) * 10)
                          else 25 + of_int (total_severe r - lo) / of_int (hi - lo) * 10)) rows
       \<and> (\<forall>r \<in> set rows. (0::real) \<le> of_int (total_severe r - lo) / of_int (hi - lo)
                         \<and> of_int (total_severe r - lo) / of_int (hi - lo) \<le> (1::real))
       \<and> (map subsidized_per_100_burdened rows = [Num 10, Num 50, Num 90] \<longrightarrow>
            (\<exists>a b c. map label_dy (add_labels rows) = [Num a, Num b, Num c]
                      \<and> 0 \<le> a \<and> 0 \<le> b \<and> c < 0))"
proof -
  let ?n = "\<lambda>r. (of_int (total_severe r - lo) / of_int (hi - lo) :: real)"
  have 1: "map label_dy (add_labels rows) =
           map (\<lambda>r. Num (if fgt (subsidized_per_100_burdened r) (median (map subsidized_per_100_burdened rows))
                          then - (25 + ?n r * 10) else 25 + ?n r * 10)) rows"
    by (simp only: add_labels_label_dy [OF ne] lo [symmetric] hi [symmetric]
        label_dy_of_Num [OF neq])
  have bounds: "0 \<le> ?n r \<and> ?n r \<le> 1" if "r \<in> set rows" for r
  proof -
    from that have "lo \<le> total_severe r" "total_severe r \<le> hi"
      unfolding lo hi by (simp_all add: Min_le)
    moreover from this neq have "lo < hi" by simp
    ultimately show ?thesis by simp
  qed
  then have 2: "\<forall>r \<in> set rows. 0 \<le> ?n r \<and> ?n r \<le> 1" by blast
  have 3: "\<exists>a b c. map label_dy (add_labels rows) = [Num a, Num b, Num c] \<and> 0 \<le> a \<and> 0 \<le> b \<and> c < 0"
    if y: "map subsidized_per_100_burdened rows = [Num 10, Num 50, Num 90]"
  proof -
    from y obtain r1 r2 r3 where rows: "rows = [r1, r2, r3]"
      and ys: "subsidized_per_100_burdened r1 = Num 10" "subsidized_per_100_burdened r2 = Num 50"
        "subsidized_per_100_burdened r3 = Num 90"
      by (auto simp: map_eq_Cons_conv)
    have n: "0 \<le> ?n r1" "0 \<le> ?n r2" "0 \<le> ?n r3"
      using bounds unfolding rows by simp_all
    have e: "map label_dy (add_labels rows) =
        [Num (25 + ?n r1 * 10), Num (25 + ?n r2 * 10), Num (- (25 + ?n r3 * 10))]"
      unfolding 1 y median_10_50_90 by (simp add: rows ys)
    have p1: "0 \<le> 25 + ?n r1 * 10"
      using dy_sign [OF n(1)] by (rule conjunct1)
    have p2: "0 \<le> 25 + ?n r2 * 10"
      using dy_sign [OF n(2)] by (rule conjunct1)
    have p3: "- (25 + ?n r3 * 10) < 0"
      using dy_sign [OF n(3)] by (rule conjunct2)
    show ?thesis
      by (intro exI conjI, rule e, rule p1, rule p2, rule p3)
  qed
  from 1 2 3 show ?thesis by blast
qed

theorem label_offsets_follow_size_and_median_witness:
  "[\<lparr>income_group = ''Legacy City'', total_severe = 200, total_subsidized = 20,
        severely_burdened_pct = Num (100 / 3), subsidized_per_100_burdened = Num 10\<rparr>,
      \<lparr>income_group = ''Mixed'', total_severe = 300, total_subsidized = 150,
        severely_burdened_pct = Num 50, subsidized_per_100_burdened = Num 50\<rparr>,
      \<lparr>income_group = ''Strong Market'', total_severe = 100, total_subsidized = 90,
        severely_burdened_pct = Num (50 / 3), subsidized_per_100_burdened = Num 90\<rparr>] \<noteq> []
   \<and> Min (set [200, 300, 100 :: int]) = 100 \<and> Max (set [200, 300, 100 :: int]) = 300
   \<and> (100::int) \<noteq> 300
   \<and> map label_dy (add_labels
     [\<lparr>income_group = ''Legacy City'', total_severe = 200, total_subsidized = 20,
        severely_burdened_pct = Num (100 / 3), subsidized_per_100_burdened = Num 10\<rparr>,
      \<lparr>income_group = ''Mixed'', total_severe = 300, total_subsidized = 150,
        severely_burdened_pct = Num 50, subsidized_per_100_burdened = Num 50\<rparr>,
      \<lparr>income_group = ''Strong Market'', total_severe = 100, total_subsidized = 90,
        severely_burdened_pct = Num (50 / 3), subsidized_per_100_burdened = Num 90\<rparr>])
     = [Num 30, Num 35, Num (- 25)]"
proof -
  let ?rows = "[\<lparr>income_group = ''Legacy City'', total_severe = 200, total_subsidized = 20,
        severely_burdened_pct = Num (100 / 3), subsidized_per_100_burdened = Num 10\<rparr>,
      \<lparr>income_group = ''Mixed'', total_severe = 300, total_subsidized = 150,
        severely_burdened_pct = Num 50, subsidized_per_100_burdened = Num 50\<rparr>,
      \<lparr>income_group = ''Strong Market'', total_severe = 100, total_subsidized = 90,
        severely_burdened_pct = Num (50 / 3), subsidized_per_100_burdened = Num 90\<rparr>]"
  have ne: "?rows \<noteq> []" by simp
  have lo: "(100::int) = Min (set (map total_severe ?rows))"
    and hi: "(300::int) = Max (set (map total_severe ?rows))"
    by simp_all
  have neq: "(100::int) \<noteq> 300" by simp
  have m: "median (map subsidized_per_100_burdened ?rows) = Num 50"
    by (simp add: median_10_50_90)
  from label_offsets_follow_size_and_median [OF ne lo hi neq]
  have "map label_dy (add_labels ?rows) =
           map (\<lambda>r. Num (if fgt (subsidized_per_100_burdened r) (median (map subsidized_per_100_burdened ?rows))
                          then - (25 + of_int (total_severe r - 100) / of_int (300 - 100) * 10)
                          else 25 + of_int (total_severe r - 100) / of_int (300 - 100) * 10)) ?rows"
    by (rule conjunct1)
  then have "map label_dy (add_labels ?rows) = [Num 30, Num 35, Num (- 25)]"
    unfolding m by simp
  then show ?thesis by simp
qed

text \<open>
  Claim C8 as stated defines the normalised size as 0 when all sizes are equal. The code
  divides by \<open>max_size - min_size\<close> all the same: for three city types of equal size and
  the coverages 10, 50 and 90 every offset is NaN, which is neither 25 nor at least 0.
\<close>

theorem equal_sizes_counterexample:
  "map subsidized_per_100_burdened (by_type
     [\<lparr>m_city_type = Some ''Legacy City'', m_severe_cost_burden_renters = 100, m_total_subsidized = 10\<rparr>,
      \<lparr>m_city_type = Some ''Mixed'', m_severe_cost_burden_renters = 100, m_total_subsidized = 50\<rparr>,
      \<lparr>m_city_type = Some ''Strong Market'', m_severe_cost_burden_renters = 100, m_total_subsidized = 90\<rparr>])
     = [Num 10, Num 50, Num 90]
   \<and> map label_dy (by_type
     [\<lparr>m_city_type = Some ''Legacy City'', m_severe_cost_burden_renters = 100, m_total_subsidized = 10\<rparr>,
      \<lparr>m_city_type = Some ''Mixed'', m_severe_cost_burden_renters = 100, m_total_subsidized = 50\<rparr>,
      \<lparr>m_city_type = Some ''Strong Market'', m_severe_cost_burden_renters = 100, m_total_subsidized = 90\<rparr>])
     = [NaN, NaN, NaN]
   \<and> \<not> fle (Num 0) NaN
   \<and> [NaN, NaN, NaN] \<noteq> [Num (25 + 0 * 10), Num (25 + 0 * 10), Num (- (25 + 0 * 10))]"
  by (simp add: by_type_def groupby_city_type_def group_keys_def List.map_filter_def
      add_shares_def add_labels_def Let_def np_truediv_def
      median_def fsort_def is_nan_def label_dy_of_def label_dx_of_def fsub_def)

section \<open>Properties of the cumulative series\<close>



















section \<open>Properties of the merged annual series\<close>














lemma map_filter_dropna:
  "List.map_filter (\<lambda>r. map_option (\<lambda>d. (dt_year d, zhvi r)) (zhvi_date r))
      (filter (\<lambda>r. zhvi_date r \<noteq> None) zl) =
   List.map_filter (\<lambda>r. map_option (\<lambda>d. (dt_year d, zhvi r)) (zhvi_date r)) zl"
  by (induction zl) (auto simp: List.map_filter_simps split: option.splits)

lemma one_year_series:
  "covid_trends
     [\<lparr>place_name = ''United States'', frequency = ''monthly'',
       hpi_date = Some (2011, 1, 1), index_sa = Num 100\<rparr>]
     [\<lparr>zhvi_date = Some (2011, 1, 31), zhvi = Num 1000\<rparr>] =
   Inr [\<lparr>trend_year = 2011, hpi_index = Num 100, trend_zhvi = Num 1000\<rparr>]"
  by (simp add: covid_trends_def hpi_us_def hpi_year_def zhvi_year_def groupby_year_mean_def
      series_mean_def series_sum_def is_nan_def merge_inner_def dt_year_def
      List.map_filter_simps Let_def)



text \<open>
  Claim C9, as the code has it. A ZHVI row whose date does not parse is dropped: the
  annual series and the merged table are those of the rows that have a date, and the
  merge goes on whenever the HPI dates parse.
\<close>

theorem unparseable_zhvi_dates_are_dropped:
  "zhvi_year zhvi_long = zhvi_year (filter (\<lambda>r. zhvi_date r \<noteq> None) zhvi_long)
   \<and> covid_trends hpi zhvi_long = covid_trends hpi (filter (\<lambda>r. zhvi_date r \<noteq> None) zhvi_long)
   \<and> (hpi_us hpi = Inr obs \<longrightarrow> (\<exists>rows. covid_trends hpi zhvi_long = Inr rows))"
proof -
  have 1: "zhvi_year zhvi_long = zhvi_year (filter (\<lambda>r. zhvi_date r \<noteq> None) zhvi_long)"
    by (simp only: zhvi_year_def map_filter_dropna)
  have 2: "covid_trends hpi zhvi_long =
      covid_trends hpi (filter (\<lambda>r. zhvi_date r \<noteq> None) zhvi_long)"
    unfolding covid_trends_def by (simp only: 1 [symmetric])
  have 3: "hpi_us hpi = Inr obs \<longrightarrow> (\<exists>rows. covid_trends hpi zhvi_long = Inr rows)"
    by (simp add: covid_trends_def)
  from 1 2 3 show ?thesis by (intro conjI)
qed

theorem unparseable_zhvi_dates_are_dropped_witness:
  "hpi_us [\<lparr>place_name = ''United States'', frequency = ''monthly'',
            hpi_date = Some (2011, 1, 1), index_sa = Num 100\<rparr>] = Inr [(2011, Num 100)]
   \<and> covid_trends
       [\<lparr>place_name = ''United States'', frequency = ''monthly'',
         hpi_date = Some (2011, 1, 1), index_sa = Num 100\<rparr>]
       [\<lparr>zhvi_date = Some (2011, 1, 31), zhvi = Num 1000\<rparr>,
        \<lparr>zhvi_date = None, zhvi = Num 777\<rparr>] =
     Inr [\<lparr>trend_year = 2011, hpi_index = Num 100, trend_zhvi = Num 1000\<rparr>]"
proof -
  let ?H = "[\<lparr>place_name = ''United States'', frequency = ''monthly'',
            hpi_date = Some (2011, 1, 1), index_sa = Num 100\<rparr>]"
  let ?Z = "[\<lparr>zhvi_date = Some (2011, 1, 31), zhvi = Num 1000\<rparr>,
        \<lparr>zhvi_date = None, zhvi = Num 777\<rparr>]"
  have h: "hpi_us ?H = Inr [(2011, Num 100)]"
    by (simp add: hpi_us_def dt_year_def)
  note inst = unparseable_zhvi_dates_are_dropped [of ?Z ?H "[(2011, Num 100)]"]
  from inst [THEN conjunct2, THEN conjunct2] h
  have "\<exists>rows. covid_trends ?H ?Z = Inr rows" by (rule mp)
  from inst [THEN conjunct2, THEN conjunct1]
  have "covid_trends ?H ?Z = covid_trends ?H (filter (\<lambda>r. zhvi_date r \<noteq> None) ?Z)" .
  also have "\<dots> = Inr [\<lparr>trend_year = 2011, hpi_index = Num 100, trend_zhvi = Num 1000\<rparr>]"
    by (simp add: one_year_series)
  finally show ?thesis using h by (intro conjI)
qed

text \<open>
  Claim C9 as stated covers every malformed record and promises a count of the dropped
  rows. An HPI row whose date does not parse is not dropped: the whole merge ends in the
  error. And the merged table is the same with one ZHVI row dropped as with none, so
  nothing in it tells how many rows were dropped.
\<close>

theorem dropped_rows_counterexample:
  "covid_trends
     [\<lparr>place_name = ''United States'', frequency = ''monthly'',
       hpi_date = Some (2011, 1, 1), index_sa = Num 100\<rparr>,
      \<lparr>place_name = ''United States'', frequency = ''monthly'',
       hpi_date = None, index_sa = Num 101\<rparr>]
     [\<lparr>zhvi_date = Some (2011, 1, 31), zhvi = Num 1000\<rparr>] = Inl ValueError
   \<and> covid_trends
     [\<lparr>place_name = ''United States'', frequency = ''monthly'',
       hpi_date = Some (2011, 1, 1), index_sa = Num 100\<rparr>]
     [\<lparr>zhvi_date = Some (2011, 1, 31), zhvi = Num 1000\<rparr>,
      \<lparr>zhvi_date = None, zhvi = Num 777\<rparr>] =
     Inr [\<lparr>trend_year = 2011, hpi_index = Num 100, trend_zhvi = Num 1000\<rparr>]
   \<and> covid_trends
     [\<lparr>place_name = ''United States'', frequency = ''monthly'',
       hpi_date = Some (2011, 1, 1), index_sa = Num 100\<rparr>]
     [\<lparr>zhvi_date = Some (2011, 1, 31), zhvi = Num 1000\<rparr>] =
     Inr [\<lparr>trend_year = 2011, hpi_index = Num 100, trend_zhvi = Num 1000\<rparr>]"
  by (simp add: covid_trends_def hpi_us_def hpi_year_def zhvi_year_def groupby_year_mean_def
      series_mean_def series_sum_def is_nan_def merge_inner_def dt_year_def
      List.map_filter_simps Let_def)

end
